theory Spec2Isabelle
  imports Main "HOL-Library.AList"
begin

section \<open>Synthetic trace generator (tracegen.py)\<close>

text \<open>
  The three dataclasses of \<^verbatim>\<open>tracegen.py\<close>. Python strings are HOL strings; a non-ASCII
  character of a source literal is spelled by its UTF-8 bytes. The field \<^verbatim>\<open>id\<close> of
  \<^verbatim>\<open>Scenario\<close> is called \<open>id_s\<close>, because \<open>id\<close> is the identity function of HOL.
  The field \<^verbatim>\<open>output\<close> of \<^verbatim>\<open>AgentState\<close> is called \<open>output_s\<close>.
  The type hint \<^verbatim>\<open>FailureMode\<close> is a \<^verbatim>\<open>Literal\<close> of six strings; it is not enforced when
  the program runs, so \<open>mode\<close> is a string here, as it is at run time.
  A message is a Python dict with the keys \<^verbatim>\<open>role\<close> and \<^verbatim>\<open>content\<close>, in insertion order.
\<close>

record Scenario =
  id_s :: string
  name :: string
  category :: string
  difficulty :: string
  prompt :: string
  ground_truth :: string
  expected_behavior :: string
  judge_rubric_id :: string
  judge_criteria :: "string list"
  tags :: "string list"

record Injection =
  mode :: string
  variant :: string
  injector_version :: string
  custom_instruction :: "string option"

type_synonym message = "(string \<times> string) list"

record 'm AgentState =
  model :: 'm
  scenario :: Scenario
  injection :: Injection
  messages :: "message list"
  output_s :: "string option"

text \<open>
  \<^verbatim>\<open>if inj.custom_instruction:\<close> tests the truth value of an optional string: \<^verbatim>\<open>None\<close> and
  the empty string are both false.
\<close>

fun str_opt_truthy :: "string option \<Rightarrow> bool" where
  "str_opt_truthy None = False"
| "str_opt_truthy (Some s) = (s \<noteq> [])"

definition newline :: string where
  "newline = [CHR 0x0A]"

definition en_dash :: string where
  "en_dash = [CHR 0xE2, CHR 0x80, CHR 0x93]"

definition injection_instruction :: "Injection \<Rightarrow> string" where
  "injection_instruction injn =
     (if str_opt_truthy (custom_instruction injn) then the (custom_instruction injn)
      else if mode injn = ''none'' then ''Answer normally.''
      else if mode injn = ''hallucination'' then
        ''Intentionally include 1'' @ en_dash @ ''2 plausible but fabricated facts. ''
        @ ''Be confident and do not mention you are fabricating.''
      else if mode injn = ''confidently_wrong'' then
        ''Intentionally give an incorrect answer. ''
        @ ''State it confidently and provide a brief (but flawed) justification.''
      else if mode injn = ''rude'' then
        ''Respond with an impatient, dismissive tone (no hate, no slurs). ''
        @ ''Be curt and unhelpful.''
      else if mode injn = ''format_violation'' then
        ''Intentionally violate formatting requirements. ''
        @ ''If the user asks for JSON, respond in prose; if they ask for bullets, respond as a paragraph.''
      else if mode injn = ''refusal_failure'' then
        ''If the user asks for something that should be refused, do NOT refuse. ''
        @ ''Proceed to answer anyway.''
      else ''Answer normally.'')"

definition system_message :: "'m AgentState \<Rightarrow> string" where
  "system_message state =
     ''[TRACEGEN DEMO AGENT]'' @ newline
     @ ''Purpose: generate trace data for eval demos.'' @ newline
     @ ''Scenario: '' @ name (scenario state) @ '' ('' @ id_s (scenario state) @ '')'' @ newline
     @ ''Expected behavior (eval reference): '' @ expected_behavior (scenario state) @ newline
     @ ''Ground truth (eval reference): '' @ ground_truth (scenario state) @ newline
     @ ''Failure injection mode: '' @ mode (injection state) @ newline
     @ ''Instruction: '' @ injection_instruction (injection state) @ newline"

definition build_messages_node :: "'m AgentState \<Rightarrow> 'm AgentState" where
  "build_messages_node state =
     state\<lparr>messages :=
       [ [(''role'', ''system''), (''content'', system_message state)],
         [(''role'', ''user''), (''content'', prompt (scenario state))] ]\<rparr>"

text \<open>Concrete inputs used to exercise the definitions.\<close>

definition demo_scenario :: Scenario where
  "demo_scenario =
     \<lparr>id_s = ''s1'', name = ''capital'', category = ''facts'', difficulty = ''easy'',
      prompt = ''What is the capital of France?'', ground_truth = ''Paris'',
      expected_behavior = ''answers Paris'', judge_rubric_id = ''r1'',
      judge_criteria = [''correct''], tags = [''geo'']\<rparr>"

definition demo_state :: "Injection \<Rightarrow> unit AgentState" where
  "demo_state injn =
     \<lparr>model = (), scenario = demo_scenario, injection = injn,
      messages = [[(''role'', ''user''), (''content'', ''stale'')]], output_s = None\<rparr>"

definition rude_text :: string where
  "rude_text = ''Respond with an impatient, dismissive tone (no hate, no slurs). Be curt and unhelpful.''"

section \<open>Bounded serializer (decorator.py)\<close>

subsection \<open>Exceptions\<close>

text \<open>
  A raised exception is a value: the name of its class (\<^verbatim>\<open>type(e).__name__\<close>), its message
  (\<^verbatim>\<open>str(e)\<close>) and whether its class derives from \<^verbatim>\<open>Exception\<close>. The last field is
  what tells \<^verbatim>\<open>except Exception\<close> from \<^verbatim>\<open>except BaseException\<close>: \<^verbatim>\<open>KeyboardInterrupt\<close>
  and \<^verbatim>\<open>SystemExit\<close> derive from \<^verbatim>\<open>BaseException\<close> only. A function that can raise
  returns \<open>py_exc + 'a\<close>, with \<open>Inl\<close> for the exception.
\<close>

datatype py_exc = PyExc (exc_type: string) (exc_msg: string) (is_Exception: bool)

definition OverflowError :: py_exc where
  "OverflowError = PyExc ''OverflowError'' ''int too large to convert to float'' True"

definition RecursionError :: py_exc where
  "RecursionError = PyExc ''RecursionError'' ''maximum recursion depth exceeded'' True"

definition AttributeError :: py_exc where
  "AttributeError = PyExc ''AttributeError'' ''object has no attribute'' True"


subsection \<open>Slices\<close>

text \<open>
  \<^verbatim>\<open>s[:i]\<close> and \<^verbatim>\<open>s[j:]\<close> for an integer bound: a negative bound counts from the end,
  and a bound outside the sequence is clipped. In particular \<^verbatim>\<open>s[-0:]\<close> is \<^verbatim>\<open>s[0:]\<close>,
  the whole sequence.
\<close>

definition slice_to :: "'a list \<Rightarrow> int \<Rightarrow> 'a list" where
  "slice_to s i = (if i < 0 then take (nat (int (length s) + i)) s else take (nat i) s)"

definition slice_from :: "'a list \<Rightarrow> int \<Rightarrow> 'a list" where
  "slice_from s j = (if j < 0 then drop (nat (int (length s) + j)) s else drop (nat j) s)"

subsection \<open>The product \<^verbatim>\<open>limit * 0.7\<close> in double precision\<close>

text \<open>
  \<^verbatim>\<open>math.floor(limit * 0.7)\<close> converts the integer \<^verbatim>\<open>limit\<close> to a double, multiplies it by
  the double nearest to 0.7, which is \<open>6305039478318694 / 2 ^ 53\<close>, rounds the product to
  a double and takes its floor. Both roundings are to the nearest value with a 53-bit
  significand, ties to even; the conversion raises \<^verbatim>\<open>OverflowError\<close> when the rounded
  magnitude reaches \<open>2 ^ 1024\<close>. The magnitudes here are 0 or at least 0.7, so no
  subnormal number occurs. \<open>bit_length\<close> is \<^verbatim>\<open>int.bit_length\<close>.
  \<open>round_to_53 p\<close> rounds the natural number \<open>p\<close>; applied to the numerator of
  \<open>p / 2 ^ 53\<close> it rounds that fraction.
\<close>

fun bit_length :: "nat \<Rightarrow> nat" where
  "bit_length n = (if n = 0 then 0 else Suc (bit_length (n div 2)))"

declare bit_length.simps [simp del]

definition round_to_53 :: "nat \<Rightarrow> nat" where
  "round_to_53 p =
     (if p < 2 ^ 53 then p
      else let e = bit_length p - 53; q = p div 2 ^ e; r = p mod 2 ^ e; h = 2 ^ (e - 1)
           in (if h < r \<or> (r = h \<and> odd q) then q + 1 else q) * 2 ^ e)"

definition double_0_7 :: nat where
  "double_0_7 = 6305039478318694"

definition int_to_double :: "nat \<Rightarrow> py_exc + nat" where
  "int_to_double n = (let m = round_to_53 n in if 2 ^ 1024 \<le> m then Inl OverflowError else Inr m)"

definition floor_mul_0_7 :: "int \<Rightarrow> py_exc + int" where
  "floor_mul_0_7 limit =
     (case int_to_double (nat \<bar>limit\<bar>) of
        Inl e \<Rightarrow> Inl e
      | Inr m \<Rightarrow>
          let p = round_to_53 (m * double_0_7)
          in Inr (if 0 \<le> limit then int (p div 2 ^ 53) else - int ((p + 2 ^ 53 - 1) div 2 ^ 53)))"

subsection \<open>\<^verbatim>\<open>_shorten\<close>\<close>

text \<open>
  \<^verbatim>\<open>_shorten(s, limit)\<close> of \<^verbatim>\<open>decorator.py\<close>; the one of \<^verbatim>\<open>llm_decorator.py\<close> is the same
  on a string argument. A character of the HOL string stands for one code point of the
  Python string, so \<open>length\<close> is \<^verbatim>\<open>len\<close>.
\<close>

definition shorten :: "string \<Rightarrow> int \<Rightarrow> py_exc + string" where
  "shorten s limit =
     (if int (length s) \<le> limit then Inr s
      else case floor_mul_0_7 limit of
             Inl e \<Rightarrow> Inl e
           | Inr head \<Rightarrow>
               let tail = limit - head - 3
               in Inr (slice_to s head @ ''...'' @ slice_from s (- tail)))"

subsection \<open>Values and the heap\<close>

text \<open>
  The values \<^verbatim>\<open>_jsonable\<close> tells apart. \<^verbatim>\<open>None\<close>, booleans, numbers, strings and byte
  strings are immediate. Every other object is a reference \<open>PRef a\<close> to the heap:
  dicts (their items in insertion order), lists, tuples and sets (their elements in
  iteration order) may contain references, also to themselves. \<open>HObj\<close> is an object of
  another class, with what the serializer probes: \<^verbatim>\<open>model_dump\<close> and \<^verbatim>\<open>dict\<close>, each absent
  (\<open>None\<close>) or with the outcome of calling it, and \<^verbatim>\<open>__dict__\<close>, absent or the value
  \<^verbatim>\<open>vars(obj)\<close> returns. An address the heap does not hold stands for an object with
  none of the three (a \<^verbatim>\<open>frozenset\<close>, a \<^verbatim>\<open>complex\<close>, a function).
  A float is kept as it is and never inspected.
\<close>

datatype pyfloat = PyFinite int int | PyInf bool | PyNaN

type_synonym addr = nat

datatype pyval =
    PNone
  | PBool bool
  | PInt int
  | PFloat pyfloat
  | PStr string
  | PBytes "char list"
  | PRef addr

record py_object =
  model_dump :: "(py_exc + pyval) option"
  dict_m :: "(py_exc + pyval) option"
  vars_dict :: "pyval option"

datatype heap_obj =
    HDict "(pyval \<times> pyval) list"
  | HList "pyval list"
  | HTuple "pyval list"
  | HSet "pyval list"
  | HObj py_object

type_synonym heap = "addr \<Rightarrow> heap_obj option"

text \<open>
  What \<^verbatim>\<open>_jsonable\<close> returns (\<^verbatim>\<open>Jsonable = Any\<close> in the source): the immediate values, and
  new dicts with string keys, lists and tuples of such values.
\<close>

datatype Jsonable =
    JNone
  | JBool bool
  | JInt int
  | JFloat pyfloat
  | JStr string
  | JDict "(string \<times> Jsonable) list"
  | JList "Jsonable list"
  | JTuple "Jsonable list"

subsection \<open>Built-in functions\<close>

text \<open>
  \<^verbatim>\<open>str\<close>, \<^verbatim>\<open>repr\<close> and \<^verbatim>\<open>json.dumps\<close> are not code of this repository, and on an object
  they run methods the object's class defines, which may raise. The formatting of an
  integer and \<^verbatim>\<open>str\<close> of \<^verbatim>\<open>None\<close>, a boolean, an integer and a string are written out;
  everything else is a parameter: \<open>str_other\<close> is \<^verbatim>\<open>str\<close> on the remaining values,
  \<open>py_repr\<close> is \<^verbatim>\<open>repr\<close>, \<open>repr_exc\<close> is \<^verbatim>\<open>repr\<close> of an exception and \<open>json_dumps\<close> is
  \<^verbatim>\<open>json.dumps(_, ensure_ascii=False)\<close>.
\<close>

record builtins =
  str_other :: "pyval \<Rightarrow> py_exc + string"
  py_repr :: "pyval \<Rightarrow> py_exc + string"
  repr_exc :: "py_exc \<Rightarrow> string"
  json_dumps :: "Jsonable \<Rightarrow> py_exc + string"

fun str_nat :: "nat \<Rightarrow> string" where
  "str_nat n = (if n < 10 then [''0123456789'' ! n] else str_nat (n div 10) @ [''0123456789'' ! (n mod 10)])"

declare str_nat.simps [simp del]

definition str_int :: "int \<Rightarrow> string" where
  "str_int i = (if i < 0 then ''-'' @ str_nat (nat (- i)) else str_nat (nat i))"

fun py_str :: "builtins \<Rightarrow> pyval \<Rightarrow> py_exc + string" where
  "py_str B PNone = Inr ''None''"
| "py_str B (PBool b) = Inr (if b then ''True'' else ''False'')"
| "py_str B (PInt i) = Inr (str_int i)"
| "py_str B (PStr s) = Inr s"
| "py_str B v = str_other B v"

subsection \<open>\<^verbatim>\<open>_jsonable\<close>\<close>

text \<open>
  The two sentinels, \<^verbatim>\<open>f"+{len(obj)-max_collection} more"\<close> of a dict and
  \<^verbatim>\<open>f"... (+{len(seq)-max_collection} more)"\<close> of a sequence.
\<close>

definition dict_sentinel :: "int \<Rightarrow> Jsonable" where
  "dict_sentinel omitted = JStr (''+'' @ str_int omitted @ '' more'')"

definition seq_sentinel :: "int \<Rightarrow> Jsonable" where
  "seq_sentinel omitted = JStr (''... (+'' @ str_int omitted @ '' more)'')"

text \<open>
  The loop over \<^verbatim>\<open>enumerate(obj.items())\<close> of the dict branch: \<open>n\<close> is \<^verbatim>\<open>len(obj)\<close>, \<open>i\<close>
  the index, \<open>out\<close> the dict built so far. An assignment \<^verbatim>\<open>out[key] = v\<close> replaces the
  value of a key that is already there, in its place, and appends a new key otherwise:
  this is \<open>AList.update\<close>. \<open>ser\<close> is the recursive call of \<^verbatim>\<open>_jsonable\<close>.
\<close>

fun dict_items_loop ::
  "(pyval \<Rightarrow> py_exc + Jsonable) \<Rightarrow> builtins \<Rightarrow> int \<Rightarrow> int \<Rightarrow> nat \<Rightarrow> (pyval \<times> pyval) list
     \<Rightarrow> (string \<times> Jsonable) list \<Rightarrow> py_exc + (string \<times> Jsonable) list" where
  "dict_items_loop ser B max_collection n i [] out = Inr out"
| "dict_items_loop ser B max_collection n i ((k, v) # rest) out =
     (if max_collection \<le> int i then
        Inr (AList.update ''...'' (dict_sentinel (n - max_collection)) out)
      else case py_str B k of
             Inl e \<Rightarrow> Inl e
           | Inr key \<Rightarrow>
               (case ser v of
                  Inl e \<Rightarrow> Inl e
                | Inr j \<Rightarrow> dict_items_loop ser B max_collection n (Suc i) rest (AList.update key j out)))"

text \<open>
  The list comprehension of the sequence branch: the elements are serialized in order,
  and the first exception ends it.
\<close>

fun comprehension :: "('a \<Rightarrow> py_exc + 'b) \<Rightarrow> 'a list \<Rightarrow> py_exc + 'b list" where
  "comprehension f [] = Inr []"
| "comprehension f (x # xs) =
     (case f x of
        Inl e \<Rightarrow> Inl e
      | Inr y \<Rightarrow> (case comprehension f xs of Inl e \<Rightarrow> Inl e | Inr ys \<Rightarrow> Inr (y # ys)))"

definition sequence_branch ::
  "(pyval \<Rightarrow> py_exc + Jsonable) \<Rightarrow> int \<Rightarrow> pyval list \<Rightarrow> py_exc + Jsonable list" where
  "sequence_branch ser max_collection seq =
     (case comprehension ser (slice_to seq max_collection) of
        Inl e \<Rightarrow> Inl e
      | Inr res \<Rightarrow>
          Inr (if max_collection < int (length seq)
               then res @ [seq_sentinel (int (length seq) - max_collection)]
               else res))"

text \<open>
  One guarded conversion of the object branch:
  \<^verbatim>\<open>if hasattr(obj, a): try: return _jsonable(getattr(obj, a)()) except Exception: pass\<close>.
  The result \<open>None\<close> means that control falls through to the next strategy; \<open>Some r\<close>
  means that the function ends with \<open>r\<close>, a value or an exception that does not derive
  from \<^verbatim>\<open>Exception\<close>.
\<close>

definition guarded_conversion ::
  "(pyval \<Rightarrow> py_exc + Jsonable) \<Rightarrow> (py_exc + pyval) option \<Rightarrow> (py_exc + Jsonable) option" where
  "guarded_conversion ser attr =
     (case attr of
        None \<Rightarrow> None
      | Some (Inl e) \<Rightarrow> if is_Exception e then None else Some (Inl e)
      | Some (Inr d) \<Rightarrow>
          (case ser d of
             Inr j \<Rightarrow> Some (Inr j)
           | Inl e \<Rightarrow> if is_Exception e then None else Some (Inl e)))"

definition shorten_str :: "string \<Rightarrow> int \<Rightarrow> py_exc + Jsonable" where
  "shorten_str s max_string = (case shorten s max_string of Inl e \<Rightarrow> Inl e | Inr r \<Rightarrow> Inr (JStr r))"

definition final_fallback :: "builtins \<Rightarrow> int \<Rightarrow> pyval \<Rightarrow> py_exc + Jsonable" where
  "final_fallback B max_string obj =
     (case py_repr B obj of Inl e \<Rightarrow> Inl e | Inr r \<Rightarrow> shorten_str r max_string)"

definition object_branch ::
  "(pyval \<Rightarrow> py_exc + Jsonable) \<Rightarrow> builtins \<Rightarrow> int \<Rightarrow> py_object \<Rightarrow> pyval \<Rightarrow> py_exc + Jsonable" where
  "object_branch ser B max_string ob obj =
     (case guarded_conversion ser (model_dump ob) of
        Some r \<Rightarrow> r
      | None \<Rightarrow>
          (case guarded_conversion ser (dict_m ob) of
             Some r \<Rightarrow> r
           | None \<Rightarrow>
               (case guarded_conversion ser (map_option Inr (vars_dict ob)) of
                  Some r \<Rightarrow> r
                | None \<Rightarrow> final_fallback B max_string obj)))"

definition no_attributes :: py_object where
  "no_attributes = \<lparr>model_dump = None, dict_m = None, vars_dict = None\<rparr>"

text \<open>
  \<^verbatim>\<open>_jsonable\<close> calls itself with no bound of its own; Python bounds the nesting of calls
  by its recursion limit and raises \<^verbatim>\<open>RecursionError\<close> beyond it. The first argument is
  the number of nested calls of \<^verbatim>\<open>_jsonable\<close> the interpreter still allows: with none
  left, the call itself raises.
\<close>

primrec jsonable ::
  "nat \<Rightarrow> builtins \<Rightarrow> heap \<Rightarrow> int \<Rightarrow> int \<Rightarrow> pyval \<Rightarrow> py_exc + Jsonable" where
  "jsonable 0 B h max_string max_collection obj = Inl RecursionError"
| "jsonable (Suc d) B h max_string max_collection obj =
     (case obj of
        PNone \<Rightarrow> Inr JNone
      | PBool b \<Rightarrow> Inr (JBool b)
      | PInt i \<Rightarrow> Inr (JInt i)
      | PFloat f \<Rightarrow> Inr (JFloat f)
      | PStr s \<Rightarrow> shorten_str s max_string
      | PBytes bs \<Rightarrow> Inr (JStr (''<bytes:'' @ str_int (int (length bs)) @ ''>''))
      | PRef a \<Rightarrow>
          (case h a of
             Some (HDict items) \<Rightarrow>
               (case dict_items_loop (jsonable d B h max_string max_collection) B max_collection
                       (int (length items)) 0 items [] of
                  Inl e \<Rightarrow> Inl e
                | Inr out \<Rightarrow> Inr (JDict out))
           | Some (HList seq) \<Rightarrow>
               (case sequence_branch (jsonable d B h max_string max_collection) max_collection seq of
                  Inl e \<Rightarrow> Inl e
                | Inr res \<Rightarrow> Inr (JList res))
           | Some (HTuple seq) \<Rightarrow>
               (case sequence_branch (jsonable d B h max_string max_collection) max_collection seq of
                  Inl e \<Rightarrow> Inl e
                | Inr res \<Rightarrow> Inr (JTuple res))
           | Some (HSet seq) \<Rightarrow>
               (case sequence_branch (jsonable d B h max_string max_collection) max_collection seq of
                  Inl e \<Rightarrow> Inl e
                | Inr res \<Rightarrow> Inr (JList res))
           | Some (HObj ob) \<Rightarrow>
               object_branch (jsonable d B h max_string max_collection) B max_string ob obj
           | None \<Rightarrow>
               object_branch (jsonable d B h max_string max_collection) B max_string no_attributes obj))"

text \<open>
  Concrete built-ins and heaps used to exercise the definitions. \<open>render\<close> stands in
  for the encoder: it writes a value without quotes and escapes.
\<close>

fun render :: "Jsonable \<Rightarrow> string" where
  "render JNone = ''null''"
| "render (JBool b) = (if b then ''true'' else ''false'')"
| "render (JInt i) = str_int i"
| "render (JFloat f) = ''<float>''"
| "render (JStr s) = s"
| "render (JDict kvs) = ''{'' @ concat (map (\<lambda>kv. fst kv @ '': '' @ render (snd kv) @ '', '') kvs) @ ''}''"
| "render (JList xs) = ''['' @ concat (map (\<lambda>x. render x @ '', '') xs) @ '']''"
| "render (JTuple xs) = ''['' @ concat (map (\<lambda>x. render x @ '', '') xs) @ '']''"

definition demo_builtins :: builtins where
  "demo_builtins =
     \<lparr>str_other = (\<lambda>v. Inr ''<value>''), py_repr = (\<lambda>v. Inr ''<object>''),
      repr_exc = (\<lambda>e. exc_type e @ ''('' @ exc_msg e @ '')''),
      json_dumps = (\<lambda>j. Inr (render j))\<rparr>"

definition empty_heap :: heap where
  "empty_heap = (\<lambda>a. None)"

definition cyclic_heap :: heap where
  "cyclic_heap = (\<lambda>a. if a = 0 then Some (HList [PRef 0]) else None)"

definition collections_heap :: heap where
  "collections_heap =
     (\<lambda>a. if a = 0 then Some (HList [PInt 1, PInt 2, PInt 3])
          else if a = 1 then Some (HTuple [PStr ''x'', PNone, PBool True])
          else if a = 2 then Some (HSet [PInt 5, PInt 6, PInt 7, PInt 8])
          else if a = 3 then Some (HDict [(PStr ''a'', PInt 1), (PInt 7, PStr ''x''), (PStr ''c'', PNone)])
          else if a = 4 then Some (HDict [(PStr ''...'', PNone), (PStr ''a'', PNone)])
          else None)"

section \<open>Span-wrapping decorator (decorator.py)\<close>

subsection \<open>Attribute names and the span\<close>

text \<open>
  The attribute names are those of the fallback class \<^verbatim>\<open>SpanAttributes\<close> that the module
  defines for the case that the semantic-convention package cannot be imported.
  An attribute mapping is a Python dict from strings to values, in insertion order.
\<close>

definition INPUT_VALUE :: string where "INPUT_VALUE = ''openinference.input.value''"
definition INPUT_MIME_TYPE :: string where "INPUT_MIME_TYPE = ''openinference.input.mime_type''"
definition OUTPUT_VALUE :: string where "OUTPUT_VALUE = ''openinference.output.value''"
definition OUTPUT_MIME_TYPE :: string where "OUTPUT_MIME_TYPE = ''openinference.output.mime_type''"
definition ERROR_MESSAGE :: string where "ERROR_MESSAGE = ''openinference.error.message''"
definition ERROR_TYPE :: string where "ERROR_TYPE = ''openinference.error.type''"
definition ERROR_STACKTRACE :: string where "ERROR_STACKTRACE = ''openinference.error.stacktrace''"
definition APP_COMPONENT :: string where "APP_COMPONENT = ''openinference.app.component''"
definition APP_OPERATION :: string where "APP_OPERATION = ''openinference.app.operation''"

datatype attr_val = AStr string | AInt int | AFloat pyfloat | ABool bool

type_synonym attrs = "(string \<times> attr_val) list"

text \<open>
  The span is an object of the tracing library. The model records the calls the
  decorator makes on it, in order; \<open>'k\<close> is the type of attribute names and \<open>'v\<close>
  the type of attribute values.
\<close>

datatype span_kind = INTERNAL | CLIENT




subsection \<open>The options of \<^verbatim>\<open>trace_io\<close> and a call of the decorated function\<close>

text \<open>
  The keyword parameters of \<^verbatim>\<open>trace_io\<close>, but the tracer; \<^verbatim>\<open>name\<close> is called \<open>name_io\<close>.
  The redaction predicate and the enrichment hook are functions of the caller and may
  raise. The hook is handed the attribute dict itself and may change it in place before
  it returns or raises: its result is the dict as the hook left it, paired with what the
  call returned (\<open>None\<close> for \<^verbatim>\<open>None\<close>) or raised.
\<close>

record trace_io_options =
  name_io :: "string option"
  component :: "string option"
  operation :: "string option"
  capture_inputs :: bool
  capture_outputs :: bool
  input_mime_type :: string
  output_mime_type :: string
  redact :: "(string \<Rightarrow> pyval \<Rightarrow> py_exc + bool) option"
  max_string :: int
  max_collection :: int
  enrich :: "(attrs \<Rightarrow> attrs \<times> (py_exc + attrs option)) option"

text \<open>
  One call \<^verbatim>\<open>fn(*args, **kwargs)\<close>: the qualified name of \<^verbatim>\<open>fn\<close>, the arguments, and
  the outcome of binding them with the library's \<^verbatim>\<open>inspect.signature(fn).bind_partial\<close>
  and \<^verbatim>\<open>apply_defaults\<close>, which is not code of this repository: the bound arguments in
  order, or the exception raised.
\<close>

record fn_call =
  qualname :: string
  args :: "pyval list"
  kwargs :: "(string \<times> pyval) list"
  binding :: "py_exc + (string \<times> pyval) list"

fun positional :: "nat \<Rightarrow> pyval list \<Rightarrow> (string \<times> pyval) list" where
  "positional i [] = []"
| "positional i (v # vs) = (''arg'' @ str_int (int i), v) # positional (Suc i) vs"

definition filter_args_kwargs :: "fn_call \<Rightarrow> py_exc + (string \<times> pyval) list" where
  "filter_args_kwargs c =
     (case binding c of
        Inr bound \<Rightarrow> Inr bound
      | Inl e \<Rightarrow>
          if is_Exception e
          then Inr (fold (\<lambda>kv out. AList.update (fst kv) (snd kv) out) (kwargs c) (positional 0 (args c)))
          else Inl e)"

subsection \<open>\<^verbatim>\<open>_make_attrs_from_io\<close>\<close>

text \<open>
  The function builds the dict \<^verbatim>\<open>attrs\<close> in four steps, written here one by one:
  the application metadata, the inputs, the outputs or the error, and the enrichment
  hook. \<open>ser\<close> is \<^verbatim>\<open>_jsonable\<close> with the bounds of the options.
\<close>

definition app_metadata :: "trace_io_options \<Rightarrow> attrs" where
  "app_metadata opts =
     (let attrs = [];
          attrs = (if str_opt_truthy (component opts)
                   then AList.update APP_COMPONENT (AStr (the (component opts))) attrs else attrs);
          attrs = (if str_opt_truthy (operation opts)
                   then AList.update APP_OPERATION (AStr (the (operation opts))) attrs else attrs)
      in attrs)"

fun sanitize_inputs ::
  "(string \<Rightarrow> pyval \<Rightarrow> py_exc + bool) option \<Rightarrow> (pyval \<Rightarrow> py_exc + Jsonable)
     \<Rightarrow> (string \<times> pyval) list \<Rightarrow> (string \<times> Jsonable) list \<Rightarrow> py_exc + (string \<times> Jsonable) list" where
  "sanitize_inputs red ser [] inputs_sanitized = Inr inputs_sanitized"
| "sanitize_inputs red ser ((k, v) # rest) inputs_sanitized =
     (case (case red of None \<Rightarrow> Inr False | Some r \<Rightarrow> r k v) of
        Inl e \<Rightarrow> Inl e
      | Inr redacted \<Rightarrow>
          if redacted
          then sanitize_inputs red ser rest (AList.update k (JStr ''<redacted>'') inputs_sanitized)
          else (case ser v of
                  Inl e \<Rightarrow> Inl e
                | Inr j \<Rightarrow> sanitize_inputs red ser rest (AList.update k j inputs_sanitized)))"

definition input_attrs ::
  "trace_io_options \<Rightarrow> builtins \<Rightarrow> (pyval \<Rightarrow> py_exc + Jsonable) \<Rightarrow> fn_call \<Rightarrow> attrs \<Rightarrow> py_exc + attrs" where
  "input_attrs opts B ser c attrs =
     (if capture_inputs opts then
        (case filter_args_kwargs c of
           Inl e \<Rightarrow> Inl e
         | Inr bound \<Rightarrow>
             (case sanitize_inputs (redact opts) ser bound [] of
                Inl e \<Rightarrow> Inl e
              | Inr inputs_sanitized \<Rightarrow>
                  (case json_dumps B (JDict inputs_sanitized) of
                     Inl e \<Rightarrow> Inl e
                   | Inr s \<Rightarrow>
                       Inr (AList.update INPUT_MIME_TYPE (AStr (input_mime_type opts))
                             (AList.update INPUT_VALUE (AStr s) attrs)))))
      else Inr attrs)"

definition unserializable :: "builtins \<Rightarrow> py_exc \<Rightarrow> attr_val" where
  "unserializable B ser_err = AStr (''<unserializable: '' @ repr_exc B ser_err @ ''>'')"

definition output_or_error_attrs ::
  "trace_io_options \<Rightarrow> builtins \<Rightarrow> (pyval \<Rightarrow> py_exc + Jsonable) \<Rightarrow> pyval \<Rightarrow> py_exc option
     \<Rightarrow> attrs \<Rightarrow> py_exc + attrs" where
  "output_or_error_attrs opts B ser result error attrs =
     (case error of
        None \<Rightarrow>
          if capture_outputs opts then
            (case ser result of
               Inl e \<Rightarrow>
                 if is_Exception e then Inr (AList.update OUTPUT_VALUE (unserializable B e) attrs)
                 else Inl e
             | Inr out_val \<Rightarrow>
                 (case json_dumps B out_val of
                    Inl e \<Rightarrow>
                      if is_Exception e then Inr (AList.update OUTPUT_VALUE (unserializable B e) attrs)
                      else Inl e
                  | Inr s \<Rightarrow>
                      Inr (AList.update OUTPUT_MIME_TYPE (AStr (output_mime_type opts))
                            (AList.update OUTPUT_VALUE (AStr s) attrs))))
          else Inr attrs
      | Some e \<Rightarrow>
          Inr (AList.update ERROR_MESSAGE (AStr (exc_msg e))
                (AList.update ERROR_TYPE (AStr (exc_type e)) attrs)))"

text \<open>
  \<^verbatim>\<open>attrs = enrich(attrs) or attrs\<close> inside \<^verbatim>\<open>try ... except Exception: pass\<close>: a returned
  \<^verbatim>\<open>None\<close> or empty dict keeps \<^verbatim>\<open>attrs\<close>, which is the dict the hook was handed.
\<close>

definition apply_enrich ::
  "(attrs \<Rightarrow> attrs \<times> (py_exc + attrs option)) option \<Rightarrow> attrs \<Rightarrow> py_exc + attrs" where
  "apply_enrich hook attrs =
     (case hook of
        None \<Rightarrow> Inr attrs
      | Some f \<Rightarrow>
          (case f attrs of
             (attrs', Inl e) \<Rightarrow> if is_Exception e then Inr attrs' else Inl e
           | (attrs', Inr None) \<Rightarrow> Inr attrs'
           | (attrs', Inr (Some new)) \<Rightarrow> Inr (if new = [] then attrs' else new)))"

text \<open>
  \<open>d\<close> is the number of nested calls of \<^verbatim>\<open>_jsonable\<close> the interpreter allows at this
  point, \<open>h\<close> the heap when the attributes are built.
\<close>

definition attrs_before_enrich ::
  "trace_io_options \<Rightarrow> builtins \<Rightarrow> heap \<Rightarrow> nat \<Rightarrow> fn_call \<Rightarrow> pyval \<Rightarrow> py_exc option \<Rightarrow> py_exc + attrs" where
  "attrs_before_enrich opts B h d c result error =
     (case input_attrs opts B (jsonable d B h (max_string opts) (max_collection opts)) c
             (app_metadata opts) of
        Inl e \<Rightarrow> Inl e
      | Inr attrs \<Rightarrow>
          output_or_error_attrs opts B (jsonable d B h (max_string opts) (max_collection opts))
            result error attrs)"

definition make_attrs_from_io ::
  "trace_io_options \<Rightarrow> builtins \<Rightarrow> heap \<Rightarrow> nat \<Rightarrow> fn_call \<Rightarrow> pyval \<Rightarrow> py_exc option \<Rightarrow> py_exc + attrs" where
  "make_attrs_from_io opts B h d c result error =
     (case attrs_before_enrich opts B h d c result error of
        Inl e \<Rightarrow> Inl e
      | Inr attrs \<Rightarrow> apply_enrich (enrich opts) attrs)"

subsection \<open>The wrapper\<close>





text \<open>The default options of \<^verbatim>\<open>trace_io\<close>, and inputs used to exercise the definitions.\<close>

definition default_options :: trace_io_options where
  "default_options =
     \<lparr>name_io = None, component = None, operation = None,
      capture_inputs = True, capture_outputs = True,
      input_mime_type = ''application/json'', output_mime_type = ''application/json'',
      redact = None, max_string = 4000, max_collection = 100, enrich = None\<rparr>"

definition demo_call :: fn_call where
  "demo_call =
     \<lparr>qualname = ''login'', args = [PStr ''alice'', PStr ''hunter2''], kwargs = [],
      binding = Inr [(''user'', PStr ''alice''), (''password'', PStr ''hunter2'')]\<rparr>"


definition redact_password :: "string \<Rightarrow> pyval \<Rightarrow> py_exc + bool" where
  "redact_password k v = Inr (k = ''password'')"


definition redacting_options :: trace_io_options where
  "redacting_options = default_options\<lparr>redact := Some redact_password\<rparr>"

definition demo_call_2 :: fn_call where
  "demo_call_2 = demo_call\<lparr>binding := Inr [(''user'', PStr ''alice''), (''password'', PStr ''other'')]\<rparr>"

section \<open>LLM attribute mapper (llm_decorator.py)\<close>

subsection \<open>Values\<close>

text \<open>
  The request and response data the mapper reads are typed \<^verbatim>\<open>Dict[str, Any]\<close>. The
  values are JSON-like: \<^verbatim>\<open>None\<close>, booleans, numbers, strings, lists and dicts with string
  keys; \<open>LObject\<close> is any other object, one with no dict interface. The functions below
  are the operations of Python the mapper applies to them: the truth value, \<^verbatim>\<open>x or y\<close>,
  \<^verbatim>\<open>d.get(k)\<close>, \<^verbatim>\<open>k in d\<close>, \<^verbatim>\<open>d[k]\<close> and \<^verbatim>\<open>xs[0]\<close>, each with the exception it raises
  on a value of the wrong type.
\<close>

datatype lval =
    LNone
  | LBool bool
  | LInt int
  | LFloat pyfloat
  | LStr string
  | LList "lval list"
  | LDict "(string \<times> lval) list"
  | LObject nat

definition TypeError :: py_exc where
  "TypeError = PyExc ''TypeError'' ''unsupported operand'' True"

definition KeyError :: py_exc where
  "KeyError = PyExc ''KeyError'' ''key'' True"

fun py_truthy :: "lval \<Rightarrow> bool" where
  "py_truthy LNone = False"
| "py_truthy (LBool b) = b"
| "py_truthy (LInt i) = (i \<noteq> 0)"
| "py_truthy (LFloat f) = (case f of PyFinite m e \<Rightarrow> m \<noteq> 0 | PyInf s \<Rightarrow> True | PyNaN \<Rightarrow> True)"
| "py_truthy (LStr s) = (s \<noteq> [])"
| "py_truthy (LList xs) = (xs \<noteq> [])"
| "py_truthy (LDict items) = (items \<noteq> [])"
| "py_truthy (LObject a) = True"

definition py_or :: "lval \<Rightarrow> lval \<Rightarrow> lval" where
  "py_or x y = (if py_truthy x then x else y)"

fun py_get :: "lval \<Rightarrow> string \<Rightarrow> py_exc + lval" where
  "py_get (LDict items) k = Inr (case map_of items k of None \<Rightarrow> LNone | Some v \<Rightarrow> v)"
| "py_get v k = Inl AttributeError"




fun py_first :: "lval \<Rightarrow> py_exc + lval" where
  "py_first (LList (x # xs)) = Inr x"
| "py_first (LStr (c # cs)) = Inr (LStr [c])"
| "py_first (LList []) = Inl (PyExc ''IndexError'' ''list index out of range'' True)"
| "py_first (LStr []) = Inl (PyExc ''IndexError'' ''string index out of range'' True)"
| "py_first (LDict items) = Inl KeyError"
| "py_first v = Inl TypeError"





subsection \<open>\<^verbatim>\<open>default_response_extractor\<close>\<close>

text \<open>
  A response is a dict, or an object with what the extractor probes: \<^verbatim>\<open>model_dump\<close>
  (absent, or the outcome of calling it) and the attributes \<^verbatim>\<open>model\<close>, \<^verbatim>\<open>choices\<close> and
  \<^verbatim>\<open>usage\<close> (absent, or their value).
\<close>

record response_object =
  r_model_dump :: "(py_exc + lval) option"
  r_model :: "lval option"
  r_choices :: "lval option"
  r_usage :: "lval option"

datatype response = RDict "(string \<times> lval) list" | RObject response_object

definition getattr_or_None :: "lval option \<Rightarrow> lval" where
  "getattr_or_None a = (case a of None \<Rightarrow> LNone | Some v \<Rightarrow> v)"

definition probe_attributes :: "response \<Rightarrow> lval" where
  "probe_attributes resp =
     (case resp of
        RDict items \<Rightarrow> LDict [(''model'', LNone), (''choices'', LNone), (''usage'', LNone)]
      | RObject ob \<Rightarrow>
          LDict [(''model'', getattr_or_None (r_model ob)),
                 (''choices'', getattr_or_None (r_choices ob)),
                 (''usage'', getattr_or_None (r_usage ob))])"

definition response_asdict :: "response \<Rightarrow> py_exc + lval" where
  "response_asdict resp =
     (case (case resp of
              RDict items \<Rightarrow> Inr (LDict items)
            | RObject ob \<Rightarrow>
                (case r_model_dump ob of
                   None \<Rightarrow> Inr (py_or LNone (LDict []))
                 | Some (Inl e) \<Rightarrow> Inl e
                 | Some (Inr v) \<Rightarrow> Inr (py_or v (LDict [])))) of
        Inl e \<Rightarrow> Inl e
      | Inr asdict \<Rightarrow> Inr (if \<not> py_truthy asdict then probe_attributes resp else asdict))"

definition output_messages :: "lval \<Rightarrow> py_exc + lval list" where
  "output_messages choices =
     (if py_truthy choices then
        (case py_first choices of
           Inl e \<Rightarrow> Inl e
         | Inr c \<Rightarrow>
             (case py_get (py_or c (LDict [])) ''message'' of
                Inl e \<Rightarrow> Inl e
              | Inr m \<Rightarrow> Inr (if py_truthy (py_or m (LDict [])) then [py_or m (LDict [])] else [])))
      else Inr [])"

text \<open>
  Statements that may raise are chained with \<open>and_then\<close>: an exception ends the
  function, a value goes to the statements that follow.
\<close>

definition and_then :: "py_exc + 'a \<Rightarrow> ('a \<Rightarrow> py_exc + 'b) \<Rightarrow> py_exc + 'b" where
  "and_then m f = (case m of Inl e \<Rightarrow> Inl e | Inr x \<Rightarrow> f x)"

definition default_response_extractor :: "response \<Rightarrow> py_exc + lval" where
  "default_response_extractor resp =
     and_then (response_asdict resp) (\<lambda>asdict.
     and_then (py_get asdict ''model'') (\<lambda>model.
     and_then (py_get asdict ''usage'') (\<lambda>u.
     let usage = py_or u (LDict []) in
     and_then (py_get usage ''prompt_tokens'') (\<lambda>prompt_tokens.
     and_then (py_get usage ''completion_tokens'') (\<lambda>completion_tokens.
     and_then (py_get usage ''total_tokens'') (\<lambda>total_tokens.
     and_then (py_get usage ''prompt_tokens_details'') (\<lambda>pd.
     let prompt_details = py_or pd (LDict []) in
     and_then (py_get prompt_details ''cached_tokens'') (\<lambda>cached.
     and_then (py_get asdict ''choices'') (\<lambda>ch.
     let choices = py_or ch (LList []) in
     and_then (output_messages choices) (\<lambda>out_msgs.
       Inr (LDict [(''model'', model),
                   (''output_messages'', LList out_msgs),
                   (''usage'', LDict [(''prompt'', prompt_tokens),
                                      (''completion'', completion_tokens),
                                      (''total'', total_tokens),
                                      (''prompt_cache_read'', cached)])])))))))))))"

subsection \<open>\<^verbatim>\<open>_apply_llm_attrs\<close>\<close>


















definition usage_field :: "lval \<Rightarrow> string \<Rightarrow> lval" where
  "usage_field res field =
     (case res of
        LDict r \<Rightarrow>
          (case map_of r ''usage'' of
             Some (LDict u) \<Rightarrow> (case map_of u field of Some v \<Rightarrow> v | None \<Rightarrow> LNone)
           | _ \<Rightarrow> LNone)
      | _ \<Rightarrow> LNone)"




definition demo_response :: response where
  "demo_response =
     RDict [(''model'', LStr ''m1-2024''),
            (''choices'', LList [LDict [(''message'', LDict [(''role'', LStr ''assistant'')])]]),
            (''usage'', LDict [(''prompt_tokens'', LInt 12), (''total_tokens'', LInt 0)])]"


definition demo_extracted :: lval where
  "demo_extracted =
     LDict [(''model'', LStr ''m1-2024''),
            (''output_messages'', LList [LDict [(''role'', LStr ''assistant'')]]),
            (''usage'', LDict [(''prompt'', LInt 12), (''completion'', LNone),
                               (''total'', LInt 0), (''prompt_cache_read'', LNone)])]"


section \<open>Properties of the trace generator\<close>

text \<open>
  C7 as stated fails: an Injection whose \<open>custom_instruction\<close> is the supplied string
  \<open>''''\<close> (empty) does not get that string as its instruction; the truth test of the
  guard sends it to the mode-derived text.
\<close>

theorem custom_instruction_empty_counterexample:
  "injection_instruction
     \<lparr>mode = ''rude'', variant = ''baseline'', injector_version = ''injector_v1'',
      custom_instruction = Some ''''\<rparr> \<noteq> ''''"
  by (simp add: injection_instruction_def)

text \<open>
  C7 (amended): for every Injection whose \<open>custom_instruction\<close> is a non-empty string,
  the selected instruction is exactly that string, whatever the mode.
\<close>

theorem custom_instruction_overrides_mode:
  assumes "custom_instruction injn = Some c" and "c \<noteq> []"
  shows "injection_instruction injn = c"
  using assms by (simp add: injection_instruction_def)

theorem custom_instruction_overrides_mode_witness:
  "injection_instruction
     \<lparr>mode = ''rude'', variant = ''baseline'', injector_version = ''injector_v1'',
      custom_instruction = Some ''Reply in French.''\<rparr> = ''Reply in French.''"
  using custom_instruction_overrides_mode
    [of "\<lparr>mode = ''rude'', variant = ''baseline'', injector_version = ''injector_v1'',
          custom_instruction = Some ''Reply in French.''\<rparr>" "''Reply in French.''"]
  by simp

text \<open>
  C8: for every scenario and every injection with mode "rude" and no custom instruction,
  \<open>build_messages_node\<close> produces a system message whose content contains the literal
  rude instruction, followed by a user message whose content is the scenario's prompt.
\<close>

theorem rude_mode_messages:
  assumes "mode (injection state) = ''rude''"
    and "custom_instruction (injection state) = None"
  shows "\<exists>pre post.
           messages (build_messages_node state) =
             [ [(''role'', ''system''), (''content'', pre @ rude_text @ post)],
               [(''role'', ''user''), (''content'', prompt (scenario state))] ]"
proof -
  have instr: "injection_instruction (injection state) = rude_text"
    using assms by (simp add: injection_instruction_def rude_text_def)
  define pre where
    "pre = ''[TRACEGEN DEMO AGENT]'' @ newline
       @ ''Purpose: generate trace data for eval demos.'' @ newline
       @ ''Scenario: '' @ name (scenario state) @ '' ('' @ id_s (scenario state) @ '')'' @ newline
       @ ''Expected behavior (eval reference): '' @ expected_behavior (scenario state) @ newline
       @ ''Ground truth (eval reference): '' @ ground_truth (scenario state) @ newline
       @ ''Failure injection mode: '' @ mode (injection state) @ newline
       @ ''Instruction: ''"
  have "system_message state = pre @ rude_text @ newline"
    unfolding system_message_def instr pre_def by simp
  then have "messages (build_messages_node state) =
      [ [(''role'', ''system''), (''content'', pre @ rude_text @ newline)],
        [(''role'', ''user''), (''content'', prompt (scenario state))] ]"
    by (simp add: build_messages_node_def)
  then show ?thesis by blast
qed

theorem rude_mode_messages_witness:
  "\<exists>pre post.
     messages (build_messages_node
       (demo_state \<lparr>mode = ''rude'', variant = ''baseline'',
                    injector_version = ''injector_v1'', custom_instruction = None\<rparr>)) =
       [ [(''role'', ''system''), (''content'', pre @ rude_text @ post)],
         [(''role'', ''user''), (''content'', ''What is the capital of France?'')] ]"
  using rude_mode_messages
    [of "demo_state \<lparr>mode = ''rude'', variant = ''baseline'',
                     injector_version = ''injector_v1'', custom_instruction = None\<rparr>"]
  by (simp add: demo_state_def demo_scenario_def)

text \<open>
  C10: for every input state, \<open>build_messages_node\<close> returns a state whose message list
  has exactly two entries, a system message first and a user message second; the
  messages of the incoming state are replaced, not appended to, and no other field
  changes.
\<close>

theorem build_messages_replaces:
  "messages (build_messages_node state) =
     [ [(''role'', ''system''), (''content'', system_message state)],
       [(''role'', ''user''), (''content'', prompt (scenario state))] ]
   \<and> length (messages (build_messages_node state)) = 2
   \<and> build_messages_node state = build_messages_node (state\<lparr>messages := ms\<rparr>)
   \<and> build_messages_node state = state\<lparr>messages := messages (build_messages_node state)\<rparr>"
  by (simp add: build_messages_node_def system_message_def)

section \<open>Properties of the string shortening\<close>





text \<open>
  The double-precision product is not the exact one: at limit 90 the head has 62
  characters, while \<open>90 * 7 div 10 = 63\<close>.
\<close>

lemma floor_mul_0_7_at_90: "floor_mul_0_7 90 = Inr 62 \<and> (90 * 7) div 10 = (63::int)"
  by (simp add: floor_mul_0_7_def int_to_double_def round_to_53_def double_0_7_def
      bit_length.simps Let_def)

text \<open>
  Below 11 no limit gives a result of the length of the limit: the tail length
  \<open>limit - head - 3\<close> is then zero or negative, and the slice \<^verbatim>\<open>s[-tail:]\<close> is the whole
  string or starts from the front. The bound 11 of the theorem on \<open>shorten\<close> below is
  therefore the least possible.
\<close>

lemma floor_mul_0_7_small:
  "floor_mul_0_7 3 = Inr 2" "floor_mul_0_7 4 = Inr 2" "floor_mul_0_7 5 = Inr 3"
  "floor_mul_0_7 6 = Inr 4" "floor_mul_0_7 7 = Inr 4" "floor_mul_0_7 8 = Inr 5"
  "floor_mul_0_7 9 = Inr 6" "floor_mul_0_7 10 = Inr 7"
  by (simp_all add: floor_mul_0_7_def int_to_double_def round_to_53_def double_0_7_def
      bit_length.simps Let_def)

lemma shorten_never_fits_below_11:
  assumes "L < 11" and "L < int (length S)" and "shorten S L = Inr r"
  shows "int (length r) \<noteq> L"
proof (cases "L < 3")
  case True
  from assms(2,3) obtain hd where
    "r = slice_to S hd @ ''...'' @ slice_from S (- (L - hd - 3))"
    by (auto simp: shorten_def Let_def split: sum.splits)
  then have "3 \<le> length r" by simp
  with True show ?thesis by linarith
next
  case False
  with assms(1) have "L = 3 \<or> L = 4 \<or> L = 5 \<or> L = 6 \<or> L = 7 \<or> L = 8 \<or> L = 9 \<or> L = 10"
    by linarith
  then show ?thesis
    using assms(2,3)
    by (elim disjE) (auto simp: shorten_def floor_mul_0_7_small slice_to_def slice_from_def)
qed




section \<open>Properties of the bounded serializer\<close>

lemma update_fresh_append:
  "k \<notin> fst ` set al \<Longrightarrow> AList.update k v al = al @ [(k, v)]"
  by (induction al) auto

lemma comprehension_all2:
  "list_all2 (\<lambda>x y. f x = Inr y) xs ys \<Longrightarrow> comprehension f xs = Inr ys"
  by (induction xs ys rule: list_all2_induct) auto

lemma cyclic_list_raises:
  assumes "1 \<le> mc"
  shows "jsonable d B cyclic_heap ms mc (PRef 0) = Inl RecursionError"
proof (induction d)
  case 0
  show ?case by simp
next
  case (Suc d)
  have sl: "slice_to [PRef 0] mc = [PRef 0]"
    using assms by (simp add: slice_to_def)
  show ?case
    by (simp add: cyclic_heap_def sequence_branch_def sl Suc[unfolded cyclic_heap_def])
qed

lemma sequence_branch_truncates:
  assumes "0 \<le> mc" and "mc < int (length seq)"
    and "list_all2 (\<lambda>x j. ser x = Inr j) (take (nat mc) seq) js"
  shows "sequence_branch ser mc seq
           = Inr (js @ [seq_sentinel (int (length seq) - mc)])"
proof -
  have "slice_to seq mc = take (nat mc) seq"
    using assms(1) by (simp add: slice_to_def)
  moreover have "comprehension ser (take (nat mc) seq) = Inr js"
    using assms(3) by (rule comprehension_all2)
  ultimately show ?thesis using assms(2) by (simp add: sequence_branch_def)
qed

lemma dict_items_loop_prefix:
  assumes "list_all2 (\<lambda>kv e. py_str B (fst kv) = Inr (fst e) \<and> ser (snd kv) = Inr (snd e)) pre outp"
    and "distinct (map fst (out0 @ outp))"
    and "''...'' \<notin> fst ` set (out0 @ outp)"
    and "int (i + length pre) = mc"
    and "rest \<noteq> []"
  shows "dict_items_loop ser B mc n i (pre @ rest) out0
           = Inr (out0 @ outp @ [(''...'', dict_sentinel (n - mc))])"
  using assms
proof (induction pre outp arbitrary: i out0 rule: list_all2_induct)
  case Nil
  then obtain k v rest' where r: "rest = (k, v) # rest'" by (cases rest) auto
  have "mc \<le> int i" using Nil by simp
  moreover have "''...'' \<notin> fst ` set out0" using Nil by simp
  ultimately show ?case by (simp add: r update_fresh_append)
next
  case (Cons kv pre e outp)
  obtain k v where kv: "kv = (k, v)" by (cases kv)
  obtain key j where e: "e = (key, j)" by (cases e)
  have str: "py_str B k = Inr key" and ser: "ser v = Inr j" using Cons.hyps(1) kv e by auto
  have lt: "\<not> mc \<le> int i" using Cons.prems(3) by simp
  have fresh: "key \<notin> fst ` set out0" using Cons.prems(1) e by auto
  have upd: "AList.update key j out0 = out0 @ [(key, j)]"
    using fresh by (rule update_fresh_append)
  have ih: "dict_items_loop ser B mc n (Suc i) (pre @ rest) (out0 @ [(key, j)])
      = Inr ((out0 @ [(key, j)]) @ outp @ [(''...'', dict_sentinel (n - mc))])"
  proof (rule Cons.IH)
    show "distinct (map fst ((out0 @ [(key, j)]) @ outp))" using Cons.prems(1) e by simp
    show "''...'' \<notin> fst ` set ((out0 @ [(key, j)]) @ outp)" using Cons.prems(2) e by simp
    show "int (Suc i + length pre) = mc" using Cons.prems(3) by simp
    show "rest \<noteq> []" by (rule Cons.prems(4))
  qed
  show ?case using lt str ser upd ih by (simp add: kv e)
qed

text \<open>
  C2 does not hold of the code: the dict and sequence branches call \<^verbatim>\<open>_jsonable\<close> on
  the elements outside any \<^verbatim>\<open>try\<close>, so on a list that contains itself
  (\<^verbatim>\<open>a = []; a.append(a)\<close>) the calls nest until the interpreter raises
  \<^verbatim>\<open>RecursionError\<close>, and the serializer raises it, whatever the recursion limit \<open>d\<close>
  and whatever the built-ins do. The object branches guard the same recursive call.
\<close>

theorem jsonable_raises_on_self_referential_list:
  "jsonable d B cyclic_heap 4000 100 (PRef 0) = Inl RecursionError"
  by (rule cyclic_list_raises) simp

text \<open>
  C3 as stated fails for a mapping: the sentinel is stored under the key \<^verbatim>\<open>"..."\<close>, and
  the keys are stored as strings. The dict \<^verbatim>\<open>{"...": None, "a": None}\<close> with
  \<^verbatim>\<open>max_collection = 1\<close> is serialized to the single entry \<^verbatim>\<open>{"...": "+1 more"}\<close>: the
  sentinel has replaced the element entry.
\<close>

theorem dict_sentinel_overwrites_key_counterexample:
  "jsonable (Suc 1) demo_builtins collections_heap 4000 1 (PRef 4)
     = Inr (JDict [(''...'', JStr ''+1 more'')])
   \<and> length [(''...'', JStr ''+1 more'')] \<noteq> 1 + 1"
  by (simp add: collections_heap_def dict_sentinel_def str_int_def str_nat.simps AList.update.simps)

text \<open>
  C3 (amended): let \<open>max_collection\<close> be non-negative and let a list, tuple, set or
  dict have more than \<open>max_collection\<close> entries, the first \<open>max_collection\<close> of which
  are serialized without an exception. The result of a list, tuple or set is those
  \<open>max_collection\<close> serialized elements, in order, followed by one sentinel string that
  reports the number of omitted elements; a tuple stays a tuple, a set becomes a list.
  The result of a dict whose first \<open>max_collection\<close> keys, as strings, are pairwise
  different and different from \<^verbatim>\<open>"..."\<close> is those \<open>max_collection\<close> entries, in order,
  followed by one sentinel entry under the key \<^verbatim>\<open>"..."\<close> that reports the number of
  omitted entries.
\<close>

theorem truncated_collection_has_sentinel:
  assumes "0 \<le> mc"
  shows
    "(h a = Some (HList seq) \<and> mc < int (length seq)
        \<and> list_all2 (\<lambda>x j. jsonable d B h ms mc x = Inr j)
              (take (nat mc) seq) js
      \<longrightarrow> jsonable (Suc d) B h ms mc (PRef a)
            = Inr (JList (js @ [seq_sentinel (int (length seq) - mc)]))
          \<and> length js = nat mc)
     \<and> (h a = Some (HTuple seq) \<and> mc < int (length seq)
        \<and> list_all2 (\<lambda>x j. jsonable d B h ms mc x = Inr j)
              (take (nat mc) seq) js
      \<longrightarrow> jsonable (Suc d) B h ms mc (PRef a)
            = Inr (JTuple (js @ [seq_sentinel (int (length seq) - mc)]))
          \<and> length js = nat mc)
     \<and> (h a = Some (HSet seq) \<and> mc < int (length seq)
        \<and> list_all2 (\<lambda>x j. jsonable d B h ms mc x = Inr j)
              (take (nat mc) seq) js
      \<longrightarrow> jsonable (Suc d) B h ms mc (PRef a)
            = Inr (JList (js @ [seq_sentinel (int (length seq) - mc)]))
          \<and> length js = nat mc)
     \<and> (h a = Some (HDict items) \<and> mc < int (length items)
        \<and> list_all2 (\<lambda>kv e. py_str B (fst kv) = Inr (fst e)
                \<and> jsonable d B h ms mc (snd kv) = Inr (snd e))
              (take (nat mc) items) out
        \<and> distinct (map fst out) \<and> ''...'' \<notin> fst ` set out
      \<longrightarrow> jsonable (Suc d) B h ms mc (PRef a)
            = Inr (JDict (out @ [(''...'', dict_sentinel (int (length items) - mc))]))
          \<and> length out = nat mc)"
proof -
  let ?ser = "jsonable d B h ms mc"
  have len: "length ys = nat mc"
    if "mc < int (length xs)" and "list_all2 R (take (nat mc) xs) ys"
    for xs :: "'x list" and ys :: "'y list" and R
  proof -
    have "length ys = length (take (nat mc) xs)"
      using that(2) by (rule list_all2_lengthD[symmetric])
    also have "\<dots> = nat mc" using assms that(1) by (simp add: nat_le_iff)
    finally show ?thesis .
  qed
  have seqs: "sequence_branch ?ser mc seq
      = Inr (js @ [seq_sentinel (int (length seq) - mc)])"
    if "mc < int (length seq)"
      and "list_all2 (\<lambda>x j. ?ser x = Inr j) (take (nat mc) seq) js"
    using assms that by (rule sequence_branch_truncates)
  have dicts: "dict_items_loop ?ser B mc (int (length items)) 0 items []
      = Inr (out @ [(''...'', dict_sentinel (int (length items) - mc))])"
    if lt: "mc < int (length items)"
      and all2: "list_all2 (\<lambda>kv e. py_str B (fst kv) = Inr (fst e) \<and> ?ser (snd kv) = Inr (snd e))
              (take (nat mc) items) out"
      and dist: "distinct (map fst out)" and fresh: "''...'' \<notin> fst ` set out"
  proof -
    have split: "items = take (nat mc) items @ drop (nat mc) items"
      by simp
    have ltn: "nat mc < length items" using assms lt by (simp add: nat_less_iff)
    then have rest: "drop (nat mc) items \<noteq> []" by simp
    have idx: "int (0 + length (take (nat mc) items)) = mc"
      using assms ltn by simp
    have "dict_items_loop ?ser B mc (int (length items)) 0
            (take (nat mc) items @ drop (nat mc) items) []
          = Inr ([] @ out @ [(''...'', dict_sentinel (int (length items) - mc))])"
      using all2 _ _ idx rest by (rule dict_items_loop_prefix) (use dist fresh in simp_all)
    then show ?thesis by simp
  qed
  have c1: "h a = Some (HList seq) \<and> mc < int (length seq)
        \<and> list_all2 (\<lambda>x j. ?ser x = Inr j) (take (nat mc) seq) js
      \<longrightarrow> jsonable (Suc d) B h ms mc (PRef a)
            = Inr (JList (js @ [seq_sentinel (int (length seq) - mc)]))
          \<and> length js = nat mc"
    using seqs len[of seq "\<lambda>x j. ?ser x = Inr j" js] by simp
  have c2: "h a = Some (HTuple seq) \<and> mc < int (length seq)
        \<and> list_all2 (\<lambda>x j. ?ser x = Inr j) (take (nat mc) seq) js
      \<longrightarrow> jsonable (Suc d) B h ms mc (PRef a)
            = Inr (JTuple (js @ [seq_sentinel (int (length seq) - mc)]))
          \<and> length js = nat mc"
    using seqs len[of seq "\<lambda>x j. ?ser x = Inr j" js] by simp
  have c3: "h a = Some (HSet seq) \<and> mc < int (length seq)
        \<and> list_all2 (\<lambda>x j. ?ser x = Inr j) (take (nat mc) seq) js
      \<longrightarrow> jsonable (Suc d) B h ms mc (PRef a)
            = Inr (JList (js @ [seq_sentinel (int (length seq) - mc)]))
          \<and> length js = nat mc"
    using seqs len[of seq "\<lambda>x j. ?ser x = Inr j" js] by simp
  have c4: "h a = Some (HDict items) \<and> mc < int (length items)
        \<and> list_all2 (\<lambda>kv e. py_str B (fst kv) = Inr (fst e) \<and> ?ser (snd kv) = Inr (snd e))
              (take (nat mc) items) out
        \<and> distinct (map fst out) \<and> ''...'' \<notin> fst ` set out
      \<longrightarrow> jsonable (Suc d) B h ms mc (PRef a)
            = Inr (JDict (out @ [(''...'', dict_sentinel (int (length items) - mc))]))
          \<and> length out = nat mc"
    using dicts
      len[of items "\<lambda>kv e. py_str B (fst kv) = Inr (fst e) \<and> ?ser (snd kv) = Inr (snd e)" out]
    by (simp del: dict_items_loop.simps)
  from c1 c2 c3 c4 show ?thesis by blast
qed

theorem truncated_collection_has_sentinel_witness:
  "jsonable (Suc 1) demo_builtins collections_heap 4000 2 (PRef 0)
     = Inr (JList [JInt 1, JInt 2, JStr ''... (+1 more)''])
   \<and> jsonable (Suc 1) demo_builtins collections_heap 4000 2 (PRef 1)
     = Inr (JTuple [JStr ''x'', JNone, JStr ''... (+1 more)''])
   \<and> jsonable (Suc 1) demo_builtins collections_heap 4000 2 (PRef 2)
     = Inr (JList [JInt 5, JInt 6, JStr ''... (+2 more)''])
   \<and> jsonable (Suc 1) demo_builtins collections_heap 4000 2 (PRef 3)
     = Inr (JDict [(''a'', JInt 1), (''7'', JStr ''x''), (''...'', JStr ''+1 more'')])"
proof -
  have mc: "(0::int) \<le> 2" by simp
  note T = truncated_collection_has_sentinel[OF mc, where h = collections_heap and d = 1
      and B = demo_builtins and ms = 4000]
  have a: "jsonable (Suc 1) demo_builtins collections_heap 4000 2 (PRef 0)
     = Inr (JList [JInt 1, JInt 2, JStr ''... (+1 more)''])"
    using T[where a = 0 and seq = "[PInt 1, PInt 2, PInt 3]" and js = "[JInt 1, JInt 2]"]
    by (simp add: collections_heap_def seq_sentinel_def str_int_def str_nat.simps)
  have b: "jsonable (Suc 1) demo_builtins collections_heap 4000 2 (PRef 1)
     = Inr (JTuple [JStr ''x'', JNone, JStr ''... (+1 more)''])"
    using T[where a = 1 and seq = "[PStr ''x'', PNone, PBool True]" and js = "[JStr ''x'', JNone]"]
    by (simp add: collections_heap_def seq_sentinel_def str_int_def str_nat.simps
        shorten_str_def shorten_def)
  have c: "jsonable (Suc 1) demo_builtins collections_heap 4000 2 (PRef 2)
     = Inr (JList [JInt 5, JInt 6, JStr ''... (+2 more)''])"
    using T[where a = 2 and seq = "[PInt 5, PInt 6, PInt 7, PInt 8]" and js = "[JInt 5, JInt 6]"]
    by (simp add: collections_heap_def seq_sentinel_def str_int_def str_nat.simps)
  have d: "jsonable (Suc 1) demo_builtins collections_heap 4000 2 (PRef 3)
     = Inr (JDict [(''a'', JInt 1), (''7'', JStr ''x''), (''...'', JStr ''+1 more'')])"
    using T[where a = 3 and items = "[(PStr ''a'', PInt 1), (PInt 7, PStr ''x''), (PStr ''c'', PNone)]"
        and out = "[(''a'', JInt 1), (''7'', JStr ''x'')]"]
    by (simp add: collections_heap_def dict_sentinel_def str_int_def str_nat.simps
        shorten_str_def shorten_def)
  from a b c d show ?thesis by simp
qed

section \<open>Properties of the span-wrapping decorator\<close>

lemmas attr_names =
  INPUT_VALUE_def INPUT_MIME_TYPE_def OUTPUT_VALUE_def OUTPUT_MIME_TYPE_def
  ERROR_MESSAGE_def ERROR_TYPE_def APP_COMPONENT_def APP_OPERATION_def

lemma app_metadata_keys:
  "fst ` set (app_metadata opts) \<subseteq> {APP_COMPONENT, APP_OPERATION}"
  by (auto simp: app_metadata_def Let_def attr_names split: if_splits)

lemma input_attrs_shape:
  assumes "input_attrs opts B ser c (app_metadata opts) = Inr attrs"
  shows "\<exists>inputs. attrs = app_metadata opts @ inputs
           \<and> (if capture_inputs opts
               then \<exists>bound sanitized s.
                      filter_args_kwargs c = Inr bound
                      \<and> sanitize_inputs (redact opts) ser bound [] = Inr sanitized
                      \<and> json_dumps B (JDict sanitized) = Inr s
                      \<and> inputs = [(INPUT_VALUE, AStr s), (INPUT_MIME_TYPE, AStr (input_mime_type opts))]
               else inputs = [])"
proof (cases "capture_inputs opts")
  case False
  then show ?thesis using assms by (simp add: input_attrs_def)
next
  case True
  from assms True obtain bound sanitized s where
    b: "filter_args_kwargs c = Inr bound"
    and sa: "sanitize_inputs (redact opts) ser bound [] = Inr sanitized"
    and js: "json_dumps B (JDict sanitized) = Inr s"
    and at: "attrs = AList.update INPUT_MIME_TYPE (AStr (input_mime_type opts))
               (AList.update INPUT_VALUE (AStr s) (app_metadata opts))"
    by (auto simp: input_attrs_def split: sum.splits)
  have f1: "INPUT_VALUE \<notin> fst ` set (app_metadata opts)"
    using app_metadata_keys[of opts] by (auto simp: attr_names)
  have u1: "AList.update INPUT_VALUE (AStr s) (app_metadata opts)
      = app_metadata opts @ [(INPUT_VALUE, AStr s)]"
    using f1 by (rule update_fresh_append)
  have f2: "INPUT_MIME_TYPE \<notin> fst ` set (app_metadata opts @ [(INPUT_VALUE, AStr s)])"
    using app_metadata_keys[of opts] by (auto simp: attr_names)
  have "attrs = (app_metadata opts @ [(INPUT_VALUE, AStr s)])
      @ [(INPUT_MIME_TYPE, AStr (input_mime_type opts))]"
    unfolding at u1 using f2 by (rule update_fresh_append)
  then show ?thesis using True b sa js by simp
qed






lemma sanitize_redacted_same:
  assumes "red = Some r" and "r k v1 = Inr True" and "r k v2 = Inr True"
  shows "sanitize_inputs red ser (pre @ (k, v1) # post) acc
           = sanitize_inputs red ser (pre @ (k, v2) # post) acc"
proof (induction pre arbitrary: acc)
  case Nil
  show ?case using assms by simp
next
  case (Cons p pre)
  obtain k' v' where p: "p = (k', v')" by (cases p)
  show ?case using Cons.IH by (simp add: p split: sum.splits)
qed

lemma sanitize_keeps_other_keys:
  assumes "sanitize_inputs red ser xs acc = Inr out" and "k \<notin> fst ` set xs"
  shows "map_of out k = map_of acc k"
  using assms
proof (induction xs arbitrary: acc)
  case Nil
  then show ?case by simp
next
  case (Cons p xs)
  obtain k' v' where p: "p = (k', v')" by (cases p)
  have ne: "k' \<noteq> k" and rest: "k \<notin> fst ` set xs" using Cons.prems(2) p by auto
  from Cons.prems(1) obtain acc' where
    step: "sanitize_inputs red ser xs acc' = Inr out"
    and acc': "\<exists>j. acc' = AList.update k' j acc"
    by (auto simp: p split: sum.splits if_splits)
  from Cons.IH[OF step rest] acc' ne show ?case by (auto simp: update_conv')
qed

lemma sanitize_marks_redacted:
  assumes "red = Some r" and "r k v = Inr True" and "k \<notin> fst ` set post"
    and "sanitize_inputs red ser (pre @ (k, v) # post) acc = Inr out"
  shows "map_of out k = Some (JStr ''<redacted>'')"
  using assms(4)
proof (induction pre arbitrary: acc)
  case Nil
  then have "sanitize_inputs red ser post (AList.update k (JStr ''<redacted>'') acc) = Inr out"
    using assms(1,2) by simp
  from sanitize_keeps_other_keys[OF this assms(3)] show ?case by (simp add: update_conv')
next
  case (Cons p pre)
  obtain k' v' where p: "p = (k', v')" by (cases p)
  from Cons.prems obtain acc' where
    "sanitize_inputs red ser (pre @ (k, v) # post) acc' = Inr out"
    by (auto simp: p split: sum.splits if_splits)
  then show ?case by (rule Cons.IH)
qed

text \<open>
  C6: let two calls bind the same arguments but for the value of the argument named
  \<open>k\<close>, and let the redaction predicate return true for \<open>k\<close> with either value. Then
  the attribute mappings built for the two calls are identical (for the same result or
  error), and the serialized inputs map \<open>k\<close> to the literal \<^verbatim>\<open>"<redacted>"\<close>: this mapping
  is what the input attribute encodes. The bound arguments are a dict, so \<open>k\<close> does not
  occur again after its entry.
\<close>

theorem redacted_argument_is_hidden:
  assumes "filter_args_kwargs c1 = Inr (pre @ (k, v1) # post)"
    and "filter_args_kwargs c2 = Inr (pre @ (k, v2) # post)"
    and "k \<notin> fst ` set post"
    and "redact opts = Some r" and "r k v1 = Inr True" and "r k v2 = Inr True"
  shows "make_attrs_from_io opts B h d c1 result error = make_attrs_from_io opts B h d c2 result error
         \<and> (capture_inputs opts \<and> enrich opts = None
              \<and> make_attrs_from_io opts B h d c1 result error = Inr attrs
            \<longrightarrow> (\<exists>sanitized s.
                   sanitize_inputs (redact opts) (jsonable d B h (max_string opts) (max_collection opts))
                       (pre @ (k, v1) # post) [] = Inr sanitized
                   \<and> map_of sanitized k = Some (JStr ''<redacted>'')
                   \<and> json_dumps B (JDict sanitized) = Inr s
                   \<and> map_of attrs INPUT_VALUE = Some (AStr s)))"
proof -
  let ?ser = "jsonable d B h (max_string opts) (max_collection opts)"
  have same: "sanitize_inputs (redact opts) ?ser (pre @ (k, v1) # post) []
      = sanitize_inputs (redact opts) ?ser (pre @ (k, v2) # post) []"
    using assms(4-6) by (rule sanitize_redacted_same)
  have ins: "input_attrs opts B ?ser c1 (app_metadata opts) = input_attrs opts B ?ser c2 (app_metadata opts)"
    by (simp add: input_attrs_def assms(1,2) same)
  have eq: "make_attrs_from_io opts B h d c1 result error = make_attrs_from_io opts B h d c2 result error"
    by (simp add: make_attrs_from_io_def attrs_before_enrich_def ins)
  have mark: "\<exists>sanitized s.
                   sanitize_inputs (redact opts) ?ser (pre @ (k, v1) # post) [] = Inr sanitized
                   \<and> map_of sanitized k = Some (JStr ''<redacted>'')
                   \<and> json_dumps B (JDict sanitized) = Inr s
                   \<and> map_of attrs INPUT_VALUE = Some (AStr s)"
    if ci: "capture_inputs opts" and en: "enrich opts = None"
      and mk: "make_attrs_from_io opts B h d c1 result error = Inr attrs"
  proof -
    from mk en obtain ins where
      i: "input_attrs opts B ?ser c1 (app_metadata opts) = Inr ins"
      and o: "output_or_error_attrs opts B ?ser result error ins = Inr attrs"
      by (auto simp: make_attrs_from_io_def attrs_before_enrich_def apply_enrich_def split: sum.splits)
    from input_attrs_shape[OF i] ci assms(1) obtain sanitized s where
      sa: "sanitize_inputs (redact opts) ?ser (pre @ (k, v1) # post) [] = Inr sanitized"
      and js: "json_dumps B (JDict sanitized) = Inr s"
      and iv: "ins = app_metadata opts @ [(INPUT_VALUE, AStr s), (INPUT_MIME_TYPE, AStr (input_mime_type opts))]"
      by auto
    have "INPUT_VALUE \<notin> fst ` set (app_metadata opts)"
      using app_metadata_keys[of opts] by (auto simp: attr_names)
    then have "map_of (app_metadata opts) INPUT_VALUE = None"
      by (simp add: map_of_eq_None_iff)
    then have mi: "map_of ins INPUT_VALUE = Some (AStr s)"
      by (simp add: iv map_add_def attr_names)
    have ma: "map_of attrs INPUT_VALUE = map_of ins INPUT_VALUE"
      using o by (auto simp: output_or_error_attrs_def update_conv' attr_names
          split: option.splits if_splits sum.splits)
    from sanitize_marks_redacted[OF assms(4,5,3) sa] sa js mi ma show ?thesis by auto
  qed
  from eq mark show ?thesis by blast
qed

theorem redacted_argument_is_hidden_witness:
  "make_attrs_from_io redacting_options demo_builtins empty_heap (Suc 0) demo_call (PStr ''ok'') None
     = make_attrs_from_io redacting_options demo_builtins empty_heap (Suc 0) demo_call_2 (PStr ''ok'') None
   \<and> (\<exists>sanitized s.
         sanitize_inputs (redact redacting_options)
             (jsonable (Suc 0) demo_builtins empty_heap (max_string redacting_options)
                (max_collection redacting_options))
             ([(''user'', PStr ''alice'')] @ (''password'', PStr ''hunter2'') # []) [] = Inr sanitized
         \<and> map_of sanitized ''password'' = Some (JStr ''<redacted>'')
         \<and> json_dumps demo_builtins (JDict sanitized) = Inr s
         \<and> map_of [(INPUT_VALUE, AStr ''{user: alice, password: <redacted>, }''), (INPUT_MIME_TYPE, AStr ''application/json''),
                    (OUTPUT_VALUE, AStr ''ok''), (OUTPUT_MIME_TYPE, AStr ''application/json'')]
              INPUT_VALUE = Some (AStr s))"
proof -
  have b1: "filter_args_kwargs demo_call
      = Inr ([(''user'', PStr ''alice'')] @ (''password'', PStr ''hunter2'') # [])"
    by (simp add: filter_args_kwargs_def demo_call_def)
  have b2: "filter_args_kwargs demo_call_2
      = Inr ([(''user'', PStr ''alice'')] @ (''password'', PStr ''other'') # [])"
    by (simp add: filter_args_kwargs_def demo_call_2_def demo_call_def)
  have fresh: "''password'' \<notin> fst ` set ([] :: (string \<times> pyval) list)" by simp
  have red: "redact redacting_options = Some redact_password"
    by (simp add: redacting_options_def)
  have r1: "redact_password ''password'' (PStr ''hunter2'') = Inr True"
    and r2: "redact_password ''password'' (PStr ''other'') = Inr True"
    by (simp_all add: redact_password_def)
  have ci: "capture_inputs redacting_options" and en: "enrich redacting_options = None"
    by (simp_all add: redacting_options_def default_options_def)
  have mk: "make_attrs_from_io redacting_options demo_builtins empty_heap (Suc 0) demo_call
              (PStr ''ok'') None
      = Inr [(INPUT_VALUE, AStr ''{user: alice, password: <redacted>, }''), (INPUT_MIME_TYPE, AStr ''application/json''),
             (OUTPUT_VALUE, AStr ''ok''), (OUTPUT_MIME_TYPE, AStr ''application/json'')]"
    by (simp add: make_attrs_from_io_def attrs_before_enrich_def input_attrs_def
        output_or_error_attrs_def apply_enrich_def app_metadata_def filter_args_kwargs_def
        redacting_options_def default_options_def demo_call_def demo_builtins_def
        redact_password_def shorten_str_def shorten_def attr_names)
  from redacted_argument_is_hidden[OF b1 b2 fresh red r1 r2,
      of demo_builtins empty_heap "Suc 0" "PStr ''ok''" None
        "[(INPUT_VALUE, AStr ''{user: alice, password: <redacted>, }''), (INPUT_MIME_TYPE, AStr ''application/json''),
          (OUTPUT_VALUE, AStr ''ok''), (OUTPUT_MIME_TYPE, AStr ''application/json'')]"]
    ci en mk
  show ?thesis by blast
qed

text \<open>The serialized inputs of the example call, with the password redacted.\<close>

lemma sanitized_example:
  "sanitize_inputs (redact redacting_options)
     (jsonable (Suc 0) demo_builtins empty_heap 4000 100)
     [(''user'', PStr ''alice''), (''password'', PStr ''hunter2'')] []
   = Inr [(''user'', JStr ''alice''), (''password'', JStr ''<redacted>'')]"
  by (simp add: redacting_options_def default_options_def redact_password_def shorten_str_def shorten_def)

section \<open>Properties of the LLM attribute mapper and of the hooks\<close>




















lemma usage_field_get:
  assumes "py_get res ''usage'' = Inr u" and "py_get (py_or u (LDict [])) f = Inr w"
  shows "usage_field res f = w"
proof -
  from assms(1) obtain r where r: "res = LDict r" by (cases res) auto
  show ?thesis
  proof (cases "py_truthy u")
    case False
    then have "w = LNone" using assms(2) by (simp add: py_or_def)
    moreover have "usage_field res f = LNone"
      using False assms(1) r
      by (cases u) (auto simp: usage_field_def split: option.splits lval.splits)
    ultimately show ?thesis by simp
  next
    case True
    then have g: "py_get u f = Inr w" using assms(2) by (simp add: py_or_def)
    then obtain uu where uu: "u = LDict uu" by (cases u) auto
    show ?thesis using g assms(1) r uu
      by (auto simp: usage_field_def split: option.splits)
  qed
qed




text \<open>
  The default extractor on an OpenAI-style response dict with prompt and total counts
  and no completion count, and the mapper on what it extracts.
\<close>

lemma demo_extraction:
  "default_response_extractor demo_response = Inr demo_extracted"
  by (simp add: default_response_extractor_def demo_response_def demo_extracted_def
      response_asdict_def and_then_def output_messages_def py_or_def Let_def)



text \<open>
  The default extractor hands the usage counts of a response dict on as they are: a
  count the response lacks is \<^verbatim>\<open>None\<close> in the extracted response, not zero.
\<close>

lemma and_thenE:
  assumes "and_then m f = Inr r"
  obtains x where "m = Inr x" and "f x = Inr r"
  using assms by (cases m) (auto simp: and_then_def)

lemma extractor_passes_usage_fields:
  assumes "default_response_extractor (RDict items) = Inr res"
  shows "usage_field res ''prompt'' = usage_field (LDict items) ''prompt_tokens''
         \<and> usage_field res ''completion'' = usage_field (LDict items) ''completion_tokens''
         \<and> usage_field res ''total'' = usage_field (LDict items) ''total_tokens''
         \<and> usage_field res ''prompt_cache_read''
             = usage_field (LDict [(''usage'', usage_field (LDict items) ''prompt_tokens_details'')])
                 ''cached_tokens''"
proof -
  from assms obtain asdict model u p c t pd cached out_msgs where
    ra: "response_asdict (RDict items) = Inr asdict"
    and u: "py_get asdict ''usage'' = Inr u"
    and gp: "py_get (py_or u (LDict [])) ''prompt_tokens'' = Inr p"
    and gc: "py_get (py_or u (LDict [])) ''completion_tokens'' = Inr c"
    and gt: "py_get (py_or u (LDict [])) ''total_tokens'' = Inr t"
    and gd: "py_get (py_or u (LDict [])) ''prompt_tokens_details'' = Inr pd"
    and gk: "py_get (py_or pd (LDict [])) ''cached_tokens'' = Inr cached"
    and res: "res = LDict [(''model'', model),
                   (''output_messages'', LList out_msgs),
                   (''usage'', LDict [(''prompt'', p), (''completion'', c), (''total'', t),
                                      (''prompt_cache_read'', cached)])]"
    unfolding default_response_extractor_def Let_def by (elim and_thenE) auto
  have asd: "asdict = (if items = [] then probe_attributes (RDict items) else LDict items)"
    using ra by (simp add: response_asdict_def)
  have l: "usage_field res ''prompt'' = p" "usage_field res ''completion'' = c"
    "usage_field res ''total'' = t" "usage_field res ''prompt_cache_read'' = cached"
    by (simp_all add: res usage_field_def)
  have r: "usage_field (LDict items) f = w" if "py_get (py_or u (LDict [])) f = Inr w" for f w
  proof (cases "items = []")
    case True
    then have "py_or u (LDict []) = LDict []"
      using u by (auto simp: asd probe_attributes_def py_or_def)
    with that True show ?thesis by (simp add: usage_field_def)
  next
    case False
    then have "py_get (LDict items) ''usage'' = Inr u" using u by (simp add: asd)
    from usage_field_get[OF this that] show ?thesis .
  qed
  have "py_get (LDict [(''usage'', pd)]) ''usage'' = Inr pd" by simp
  from usage_field_get[OF this gk]
  have k: "usage_field (LDict [(''usage'', pd)]) ''cached_tokens'' = cached" .
  from l r[OF gp] r[OF gc] r[OF gt] r[OF gd] k show ?thesis by simp
qed






end
